theory Spec2Isabelle
  imports Main "HOL-Library.Word"
begin

section \<open>EditableBody: the editable, re-encoded body of a breakpointed message\<close>

text \<open>
  The class \<^verbatim>\<open>EditableBody\<close> of \<^verbatim>\<open>src/model/http/editable-body.ts\<close> keeps a decoded
  body, the body encoded for the wire, and the promise of the latest encoding request.
  The class is single threaded: every method and every callback runs to its end before
  the next one starts. The model is therefore a record of the object's fields and one
  function per method or callback, from the object before to the object after.
\<close>

subsection \<open>Data\<close>

type_synonym byte = "8 word"

text \<open>
  A \<^verbatim>\<open>Buffer\<close> is an object: the fields holding one are \<^verbatim>\<open>@observable.ref\<close>, and the
  promise check of the class is \<^verbatim>\<open>===\<close>, so identity matters next to the contents.
  A buffer is its identity and its bytes; two buffers are equal when they are the same
  object.
\<close>

record buffer =
  ident :: nat
  bytes :: "byte list"

definition byteLength :: "buffer \<Rightarrow> nat" where
  "byteLength b = length (bytes b)"

text \<open>What \<^verbatim>\<open>getContentEncodingHeader\<close> returns: \<^verbatim>\<open>string | string[] | undefined\<close>.\<close>

datatype header_value = Undefined | Str string | Arr "string list"

datatype error = Error string

text \<open>
  The promise of one encoding request. While the request awaits \<^verbatim>\<open>encodeBody\<close> the
  promise is pending and its closure holds the constant \<^verbatim>\<open>encodings\<close>.
\<close>

datatype promise = Pending "string list" | Fulfilled buffer | Rejected error

text \<open>
  The external \<^verbatim>\<open>encodeBody\<close>, as the class meets it. A call either hands back a
  promise or throws before it does; a promise handed back settles later, with the
  encoded bytes or with a rejection.
\<close>

datatype called = Returned | Threw error

datatype outcome = Resolves buffer | Rejects error

text \<open>
  The two imports that the class calls: \<^verbatim>\<open>asHeaderArray\<close>, from the raw header value to
  the array of encodings, and \<^verbatim>\<open>encodeBody\<close>, of which the synchronous part is a function
  from the arguments of a call to how the call ends.
\<close>

type_synonym normaliser = "header_value \<Rightarrow> string list"

type_synonym encoder = "buffer \<Rightarrow> string list \<Rightarrow> called"

text \<open>
  The object. \<^verbatim>\<open>promises\<close> is the store of the promises created so far: a promise is
  known by its index there, which stands for its identity. \<^verbatim>\<open>encodeCalls\<close> lists the
  calls of \<^verbatim>\<open>encodeBody\<close> (the promise of the request, the body and the encodings
  passed), \<^verbatim>\<open>errorLog\<close> the calls of \<^verbatim>\<open>logError\<close>. The fields \<^verbatim>\<open>lastArgs\<close>,
  \<^verbatim>\<open>lastCallTime\<close>, \<^verbatim>\<open>lastInvokeTime\<close> and \<^verbatim>\<open>timerId\<close> are the variables of the closure
  that \<^verbatim>\<open>_.throttle\<close> returns; \<^verbatim>\<open>timerId\<close> holds the time at which the pending timer is
  due. \<^verbatim>\<open>contentEncodingHeader\<close> is the value that the accessor
  \<^verbatim>\<open>getContentEncodingHeader\<close> returns at present.
\<close>

record editable_body =
  decodedBody :: buffer
  encodedBody :: "buffer option"
  encodingPromise :: nat
  contentEncodingHeader :: header_value
  lastArgs :: bool
  lastCallTime :: "int option"
  lastInvokeTime :: int
  timerId :: "int option"
  promises :: "promise list"
  encodeCalls :: "(nat \<times> buffer \<times> string list) list"
  errorLog :: "(error \<times> string list) list"

subsection \<open>The getters\<close>

text \<open>
  \<^verbatim>\<open>asHeaderArray\<close> is imported from \<^verbatim>\<open>util/headers\<close> and \<^verbatim>\<open>encodeBody\<close> from
  \<^verbatim>\<open>services/ui-worker-api\<close>; the class only calls them, so the methods take them as
  the parameters \<open>asArray\<close> and \<open>encodeBody\<close>.
\<close>

definition contentEncodings :: "normaliser \<Rightarrow> editable_body \<Rightarrow> string list" where
  "contentEncodings asArray this = asArray (contentEncodingHeader this)"

definition contentLength :: "editable_body \<Rightarrow> nat" where
  "contentLength this = (case encodedBody this of None \<Rightarrow> 0 | Some b \<Rightarrow> byteLength b)"

definition encoded :: "editable_body \<Rightarrow> nat" where
  "encoded this = encodingPromise this"

definition decoded :: "editable_body \<Rightarrow> buffer" where
  "decoded this = decodedBody this"

subsection \<open>The encoding request\<close>

text \<open>
  The function that \<^verbatim>\<open>_.throttle\<close> wraps. The async function runs up to its
  \<^verbatim>\<open>await\<close> at once: it reads \<^verbatim>\<open>contentEncodings\<close> and calls \<^verbatim>\<open>encodeBody\<close> with the
  decoded body of that moment. When the call hands back a promise, the \<^verbatim>\<open>catch\<close>
  handler is attached to it and the async function awaits: its own promise is pending.
  When the call throws, no handler is attached yet, the async function ends with the
  error, and its own promise has rejected with it. Either way the promise is new, and
  is stored in \<^verbatim>\<open>_encodingPromise\<close> before anything else can run.
\<close>

definition updateEncodedBody_func :: "normaliser \<Rightarrow> encoder \<Rightarrow> editable_body \<Rightarrow> editable_body" where
  "updateEncodedBody_func asArray encodeBody this =
     (let encodeBodyPromise = length (promises this);
          encodings = contentEncodings asArray this
      in this\<lparr>promises := promises this @
                [case encodeBody (decodedBody this) encodings of
                   Returned \<Rightarrow> Pending encodings
                 | Threw e \<Rightarrow> Rejected e],
              encodeCalls := encodeCalls this @ [(encodeBodyPromise, decodedBody this, encodings)],
              encodingPromise := encodeBodyPromise\<rparr>)"

text \<open>
  The rest of the async function, run when the promise that \<^verbatim>\<open>encodeBody\<close> handed back
  has settled. A rejection goes through the \<^verbatim>\<open>catch\<close> handler, which logs the error
  with the encodings of the request and gives the decoded body of the moment it runs.
  A promise settles once, and a request whose call threw awaits nothing: a settlement
  for a promise that is not pending, or not in the store, changes nothing.
\<close>

definition encodeBody_settled :: "nat \<Rightarrow> outcome \<Rightarrow> editable_body \<Rightarrow> editable_body" where
  "encodeBody_settled encodeBodyPromise out this =
     (if encodeBodyPromise < length (promises this) then
        (case promises this ! encodeBodyPromise of
           Pending encodings \<Rightarrow>
             (let this1 = (case out of
                             Resolves b \<Rightarrow> this
                           | Rejects e \<Rightarrow> this\<lparr>errorLog := errorLog this @ [(e, encodings)]\<rparr>);
                  body = (case out of Resolves b \<Rightarrow> b | Rejects e \<Rightarrow> decodedBody this);
                  this2 = (if encodingPromise this1 = encodeBodyPromise
                           then this1\<lparr>encodedBody := Some body\<rparr> else this1)
              in this2\<lparr>promises := (promises this2)[encodeBodyPromise := Fulfilled body]\<rparr>)
         | Fulfilled b \<Rightarrow> this
         | Rejected e \<Rightarrow> this)
      else this)"

subsection \<open>The throttle\<close>

text \<open>
  \<^verbatim>\<open>_.throttle(func, 500, { leading: true, trailing: true })\<close> is lodash's, a library
  of the class and not a file of the repository. In lodash \<^verbatim>\<open>throttle\<close> is \<^verbatim>\<open>debounce\<close>
  with \<^verbatim>\<open>maxWait\<close> equal to \<^verbatim>\<open>wait\<close>, and the definitions below follow \<^verbatim>\<open>debounce\<close>
  function by function, under its names, with \<^verbatim>\<open>leading\<close>, \<^verbatim>\<open>trailing\<close> and \<^verbatim>\<open>maxing\<close>
  true. The time is \<^verbatim>\<open>Date.now()\<close>, in milliseconds.
\<close>

definition wait :: int where
  "wait = 500"

definition maxWait :: int where
  "maxWait = 500"

definition invokeFunc :: "normaliser \<Rightarrow> encoder \<Rightarrow> int \<Rightarrow> editable_body \<Rightarrow> editable_body" where
  "invokeFunc asArray encodeBody time this =
     updateEncodedBody_func asArray encodeBody (this\<lparr>lastArgs := False, lastInvokeTime := time\<rparr>)"

definition leadingEdge :: "normaliser \<Rightarrow> encoder \<Rightarrow> int \<Rightarrow> editable_body \<Rightarrow> editable_body" where
  "leadingEdge asArray encodeBody time this =
     invokeFunc asArray encodeBody time (this\<lparr>lastInvokeTime := time, timerId := Some (time + wait)\<rparr>)"

text \<open>
  \<^verbatim>\<open>remainingWait\<close> is reached only when \<^verbatim>\<open>shouldInvoke\<close> is false, so with a
  \<^verbatim>\<open>lastCallTime\<close>; without one the JavaScript computes NaN, a delay of 0.
\<close>

definition remainingWait :: "int \<Rightarrow> editable_body \<Rightarrow> int" where
  "remainingWait time this =
     (case lastCallTime this of
        None \<Rightarrow> 0
      | Some lct \<Rightarrow> min (wait - (time - lct)) (maxWait - (time - lastInvokeTime this)))"

definition shouldInvoke :: "int \<Rightarrow> editable_body \<Rightarrow> bool" where
  "shouldInvoke time this =
     (case lastCallTime this of
        None \<Rightarrow> True
      | Some lct \<Rightarrow> wait \<le> time - lct \<or> time - lct < 0 \<or> maxWait \<le> time - lastInvokeTime this)"

definition trailingEdge :: "normaliser \<Rightarrow> encoder \<Rightarrow> int \<Rightarrow> editable_body \<Rightarrow> editable_body" where
  "trailingEdge asArray encodeBody time this =
     (let this1 = this\<lparr>timerId := None\<rparr>
      in if lastArgs this1 then invokeFunc asArray encodeBody time this1 else this1\<lparr>lastArgs := False\<rparr>)"

definition timerExpired :: "normaliser \<Rightarrow> encoder \<Rightarrow> int \<Rightarrow> editable_body \<Rightarrow> editable_body" where
  "timerExpired asArray encodeBody time this =
     (if shouldInvoke time this then trailingEdge asArray encodeBody time this
      else this\<lparr>timerId := Some (time + remainingWait time this)\<rparr>)"

text \<open>The throttled function itself (lodash's \<^verbatim>\<open>debounced\<close>), the field \<^verbatim>\<open>updateEncodedBody\<close>.\<close>

definition updateEncodedBody :: "normaliser \<Rightarrow> encoder \<Rightarrow> int \<Rightarrow> editable_body \<Rightarrow> editable_body" where
  "updateEncodedBody asArray encodeBody time this =
     (let isInvoking = shouldInvoke time this;
          this1 = this\<lparr>lastArgs := True, lastCallTime := Some time\<rparr>
      in if isInvoking then
           (if timerId this1 = None then leadingEdge asArray encodeBody time this1
            else invokeFunc asArray encodeBody time (this1\<lparr>timerId := Some (time + wait)\<rparr>))
         else if timerId this1 = None then this1\<lparr>timerId := Some (time + wait)\<rparr>
         else this1)"

subsection \<open>The constructor, the action and the reactions\<close>

text \<open>
  The object before the constructor body runs: the throttle closure is fresh
  (\<^verbatim>\<open>lastInvokeTime = 0\<close>, nothing else set), no promise exists. \<^verbatim>\<open>_encodingPromise\<close>
  is unassigned there; both branches of the constructor assign it.
\<close>

definition blank :: "buffer \<Rightarrow> header_value \<Rightarrow> editable_body" where
  "blank initialDecodedBody header =
     \<lparr>decodedBody = initialDecodedBody, encodedBody = None, encodingPromise = 0,
      contentEncodingHeader = header,
      lastArgs = False, lastCallTime = None, lastInvokeTime = 0, timerId = None,
      promises = [], encodeCalls = [], errorLog = []\<rparr>"

definition EditableBody ::
  "normaliser \<Rightarrow> encoder \<Rightarrow> int \<Rightarrow> buffer \<Rightarrow> buffer option \<Rightarrow> header_value \<Rightarrow> editable_body" where
  "EditableBody asArray encodeBody time initialDecodedBody initialEncodedBody header =
     (let this = blank initialDecodedBody header
      in case initialEncodedBody of
           Some b \<Rightarrow> this\<lparr>encodedBody := Some b, promises := [Fulfilled b], encodingPromise := 0\<rparr>
         | None \<Rightarrow> updateEncodedBody asArray encodeBody time (this\<lparr>encodedBody := None\<rparr>))"

text \<open>
  \<^verbatim>\<open>updateDecodedBody\<close> is an action on an \<^verbatim>\<open>observable.ref\<close> field: the reaction on
  \<^verbatim>\<open>_decodedBody\<close> runs at the end of the action when the field holds another object
  than before, and calls the throttled \<^verbatim>\<open>updateEncodedBody\<close>.
\<close>

definition updateDecodedBody :: "normaliser \<Rightarrow> encoder \<Rightarrow> int \<Rightarrow> buffer \<Rightarrow> editable_body \<Rightarrow> editable_body" where
  "updateDecodedBody asArray encodeBody time newBody this =
     (let this1 = this\<lparr>decodedBody := newBody\<rparr>
      in if newBody = decodedBody this then this1 else updateEncodedBody asArray encodeBody time this1)"

text \<open>
  The owner changes what the header accessor returns. \<^verbatim>\<open>contentEncodings\<close> is
  \<^verbatim>\<open>computed.struct\<close>: its reaction runs when the new array differs from the old one
  as a value.
\<close>

definition setContentEncodingHeader :: "normaliser \<Rightarrow> encoder \<Rightarrow> int \<Rightarrow> header_value \<Rightarrow> editable_body \<Rightarrow> editable_body" where
  "setContentEncodingHeader asArray encodeBody time header this =
     (let this1 = this\<lparr>contentEncodingHeader := header\<rparr>
      in if asArray header = contentEncodings asArray this then this1
         else updateEncodedBody asArray encodeBody time this1)"

text \<open>The timer of the throttle fires: never before it is due, and only when one is pending.\<close>

definition timerFired :: "normaliser \<Rightarrow> encoder \<Rightarrow> int \<Rightarrow> editable_body \<Rightarrow> editable_body" where
  "timerFired asArray encodeBody time this =
     (case timerId this of
        None \<Rightarrow> this
      | Some due \<Rightarrow> if time < due then this else timerExpired asArray encodeBody time this)"

subsection \<open>Histories\<close>

datatype event =
    UpdateDecodedBody buffer
  | SetContentEncodingHeader header_value
  | TimerFired
  | EncodeBodySettled nat outcome

fun step :: "normaliser \<Rightarrow> encoder \<Rightarrow> int \<times> event \<Rightarrow> editable_body \<Rightarrow> editable_body" where
  "step asArray encodeBody (time, UpdateDecodedBody newBody) this = updateDecodedBody asArray encodeBody time newBody this"
| "step asArray encodeBody (time, SetContentEncodingHeader header) this = setContentEncodingHeader asArray encodeBody time header this"
| "step asArray encodeBody (time, TimerFired) this = timerFired asArray encodeBody time this"
| "step asArray encodeBody (time, EncodeBodySettled p out) this = encodeBody_settled p out this"

fun run :: "normaliser \<Rightarrow> encoder \<Rightarrow> (int \<times> event) list \<Rightarrow> editable_body \<Rightarrow> editable_body" where
  "run asArray encodeBody [] this = this"
| "run asArray encodeBody (e # es) this = run asArray encodeBody es (step asArray encodeBody e this)"

subsection \<open>The header normaliser\<close>

text \<open>
  Modelled from the spec: \<^verbatim>\<open>asHeaderArray\<close> of \<^verbatim>\<open>util/headers\<close> is not under src/.
  The spec (section 6) has the raw header value, a string, a sequence of strings or
  absent, "normalized into an ordered sequence of lowercase encoding tokens", and
  (section 9) into "one canonical ordered-sequence-of-string representation". A string
  is cut at its commas, each token trimmed of blanks and put in lower case.
\<close>

definition toLower :: "char \<Rightarrow> char" where
  "toLower c = (let n = of_char c :: nat in if 65 \<le> n \<and> n \<le> 90 then char_of (n + 32) else c)"

fun splitOn :: "char \<Rightarrow> string \<Rightarrow> string list" where
  "splitOn sep [] = [[]]"
| "splitOn sep (c # cs) =
     (if c = sep then [] # splitOn sep cs
      else (case splitOn sep cs of [] \<Rightarrow> [[c]] | w # ws \<Rightarrow> (c # w) # ws))"

definition trim :: "string \<Rightarrow> string" where
  "trim v = rev (dropWhile (\<lambda>c. c = CHR '' '') (rev (dropWhile (\<lambda>c. c = CHR '' '') v)))"

definition tokens :: "string \<Rightarrow> string list" where
  "tokens v = map (\<lambda>t. map toLower (trim t)) (splitOn CHR '','' v)"

fun asHeaderArray :: "header_value \<Rightarrow> string list" where
  "asHeaderArray Undefined = []"
| "asHeaderArray (Str v) = tokens v"
| "asHeaderArray (Arr vs) = concat (map tokens vs)"

subsection \<open>Predicates of the properties\<close>


text \<open>The request of promise \<open>p\<close> called \<^verbatim>\<open>encodeBody\<close>, and the call threw \<open>e\<close>.\<close>

definition threw :: "encoder \<Rightarrow> editable_body \<Rightarrow> nat \<Rightarrow> error \<Rightarrow> bool" where
  "threw encodeBody this p e =
     list_ex (\<lambda>(q, body, encodings). q = p \<and> encodeBody body encodings = Threw e) (encodeCalls this)"

text \<open>
  The object's promise store is sound when \<^verbatim>\<open>_encodingPromise\<close> is one of its promises
  and every promise that has rejected is that of a request whose call of
  \<^verbatim>\<open>encodeBody\<close> threw, rejected with the error thrown.
\<close>

definition sound :: "encoder \<Rightarrow> editable_body \<Rightarrow> bool" where
  "sound encodeBody this =
     (encodingPromise this < length (promises this) \<and>
      (\<forall>p < length (promises this). \<forall>e. promises this ! p = Rejected e \<longrightarrow> threw encodeBody this p e))"

text \<open>
  The events that make a reaction run: an action that stores another buffer, a header
  whose array differs from the present one.
\<close>

fun trigger :: "normaliser \<Rightarrow> editable_body \<Rightarrow> event \<Rightarrow> bool" where
  "trigger asArray this (UpdateDecodedBody newBody) = (newBody \<noteq> decodedBody this)"
| "trigger asArray this (SetContentEncodingHeader header) = (asArray header \<noteq> contentEncodings asArray this)"
| "trigger asArray this TimerFired = False"
| "trigger asArray this (EncodeBodySettled p out) = False"

fun untriggered :: "normaliser \<Rightarrow> encoder \<Rightarrow> (int \<times> event) list \<Rightarrow> editable_body \<Rightarrow> bool" where
  "untriggered asArray encodeBody [] this = True"
| "untriggered asArray encodeBody (e # es) this =
     (\<not> trigger asArray this (snd e) \<and> untriggered asArray encodeBody es (step asArray encodeBody e this))"



text \<open>The events that call \<^verbatim>\<open>updateDecodedBody\<close>.\<close>

fun edit :: "int \<times> event \<Rightarrow> bool" where
  "edit (time, UpdateDecodedBody newBody) = True"
| "edit (time, SetContentEncodingHeader header) = False"
| "edit (time, TimerFired) = False"
| "edit (time, EncodeBodySettled p out) = False"

text \<open>
  What a method can do to the promise store and the list of calls: schedule one
  request, which makes one call of \<^verbatim>\<open>encodeBody\<close> and adds the promise of that
  request as the latest, or leave both as they are.
\<close>

definition scheduled :: "normaliser \<Rightarrow> encoder \<Rightarrow> editable_body \<Rightarrow> editable_body \<Rightarrow> bool" where
  "scheduled asArray encodeBody this this' =
     (promises this' = promises this @
        [case encodeBody (decodedBody this) (contentEncodings asArray this) of
           Returned \<Rightarrow> Pending (contentEncodings asArray this)
         | Threw e \<Rightarrow> Rejected e] \<and>
      encodingPromise this' = length (promises this) \<and>
      encodeCalls this' = encodeCalls this @
        [(length (promises this), decodedBody this, contentEncodings asArray this)])"

definition unscheduled :: "editable_body \<Rightarrow> editable_body \<Rightarrow> bool" where
  "unscheduled this this' =
     (promises this' = promises this \<and> encodingPromise this' = encodingPromise this \<and>
      encodeCalls this' = encodeCalls this)"

subsection \<open>Sample data\<close>

text \<open>
  Two stand-ins for \<^verbatim>\<open>encodeBody\<close>: one every call of which hands back a promise, as
  an async function does, and one every call of which throws.
\<close>

definition asyncEncodeBody :: encoder where
  "asyncEncodeBody body encodings = Returned"

definition throwingEncodeBody :: encoder where
  "throwingEncodeBody body encodings = Threw (Error ''no worker'')"

definition plainBody :: buffer where
  "plainBody = \<lparr>ident = 1, bytes = [104, 105]\<rparr>"

definition editedBody :: buffer where
  "editedBody = \<lparr>ident = 2, bytes = [104, 101, 121]\<rparr>"

definition finalBody :: buffer where
  "finalBody = \<lparr>ident = 3, bytes = [104, 101, 108, 108, 111]\<rparr>"

definition gzippedBody :: buffer where
  "gzippedBody = \<lparr>ident = 10, bytes = [31, 139, 8, 0]\<rparr>"

definition gzippedEdit :: buffer where
  "gzippedEdit = \<lparr>ident = 11, bytes = [31, 139, 8, 0, 7]\<rparr>"

section \<open>Properties\<close>

subsection \<open>Evaluation and frame lemmas\<close>

lemmas throttle_defs = updateEncodedBody_def leadingEdge_def invokeFunc_def trailingEdge_def
  timerExpired_def updateEncodedBody_func_def

lemmas sample_defs = plainBody_def editedBody_def finalBody_def gzippedBody_def gzippedEdit_def
  asyncEncodeBody_def throwingEncodeBody_def

lemmas model_defs = EditableBody_def blank_def updateDecodedBody_def setContentEncodingHeader_def
  timerFired_def encodeBody_settled_def throttle_defs shouldInvoke_def remainingWait_def
  wait_def maxWait_def contentEncodings_def contentLength_def encoded_def decoded_def byteLength_def
  Let_def

lemma tokens_gzip: "tokens ''gzip'' = [''gzip'']"
  by (simp add: tokens_def trim_def toLower_def)

lemma tokens_br: "tokens ''br'' = [''br'']"
  by (simp add: tokens_def trim_def toLower_def)

lemmas eval_defs = model_defs sample_defs tokens_gzip tokens_br

lemma updateEncodedBody_frame [simp]:
  "decodedBody (updateEncodedBody asArray encodeBody time this) = decodedBody this"
  "encodedBody (updateEncodedBody asArray encodeBody time this) = encodedBody this"
  "errorLog (updateEncodedBody asArray encodeBody time this) = errorLog this"
  "contentEncodingHeader (updateEncodedBody asArray encodeBody time this) = contentEncodingHeader this"
  by (simp_all add: throttle_defs Let_def)

lemma timerFired_frame [simp]:
  "decodedBody (timerFired asArray encodeBody time this) = decodedBody this"
  "encodedBody (timerFired asArray encodeBody time this) = encodedBody this"
  "errorLog (timerFired asArray encodeBody time this) = errorLog this"
  "contentEncodingHeader (timerFired asArray encodeBody time this) = contentEncodingHeader this"
  by (simp_all add: timerFired_def throttle_defs Let_def split: option.splits)

lemma shouldInvoke_frame [simp]:
  "shouldInvoke t (this\<lparr>decodedBody := b\<rparr>) = shouldInvoke t this"
  "shouldInvoke t (this\<lparr>contentEncodingHeader := h\<rparr>) = shouldInvoke t this"
  by (simp_all add: shouldInvoke_def split: option.splits)

text \<open>Every way into the wrapped function schedules one request or none.\<close>

lemma updateEncodedBody_promises:
  "unscheduled this (updateEncodedBody asArray encodeBody time this) \<or>
   scheduled asArray encodeBody this (updateEncodedBody asArray encodeBody time this)"
  by (simp add: unscheduled_def scheduled_def throttle_defs Let_def contentEncodings_def
      split: called.splits)

lemma timerFired_promises:
  "unscheduled this (timerFired asArray encodeBody time this) \<or>
   scheduled asArray encodeBody this (timerFired asArray encodeBody time this)"
  by (simp add: unscheduled_def scheduled_def timerFired_def throttle_defs Let_def contentEncodings_def
      split: option.splits called.splits)

subsection \<open>The promise store along a history\<close>






lemma sound_field [simp]:
  "sound encodeBody (this\<lparr>decodedBody := b\<rparr>) = sound encodeBody this"
  "sound encodeBody (this\<lparr>contentEncodingHeader := h\<rparr>) = sound encodeBody this"
  by (simp_all add: sound_def threw_def)



lemma sound_blank: "sound encodeBody ((blank d h)\<lparr>promises := [Fulfilled b], encodedBody := x\<rparr>)"
  by (simp add: sound_def blank_def)


text \<open>Promises already in the store stay there, and one that is pending later was pending before.\<close>

lemma step_pending:
  assumes "i < length (promises this)"
  shows "i < length (promises (step asArray encodeBody e this)) \<and>
         (promises (step asArray encodeBody e this) ! i = Pending encodings \<longrightarrow> promises this ! i = Pending encodings)"
proof (cases e)
  case (Pair time ev)
  show ?thesis
  proof (cases ev)
    case (UpdateDecodedBody b)
    show ?thesis using assms updateEncodedBody_promises [of "this\<lparr>decodedBody := b\<rparr>" asArray encodeBody time]
      by (auto simp add: Pair UpdateDecodedBody updateDecodedBody_def Let_def nth_append
          unscheduled_def scheduled_def)
  next
    case (SetContentEncodingHeader h)
    show ?thesis using assms updateEncodedBody_promises [of "this\<lparr>contentEncodingHeader := h\<rparr>" asArray encodeBody time]
      by (auto simp add: Pair SetContentEncodingHeader setContentEncodingHeader_def Let_def nth_append
          unscheduled_def scheduled_def)
  next
    case TimerFired
    show ?thesis using assms timerFired_promises [of this asArray encodeBody time]
      by (auto simp add: Pair TimerFired nth_append unscheduled_def scheduled_def)
  next
    case (EncodeBodySettled p out)
    show ?thesis using assms
      by (auto simp add: Pair EncodeBodySettled encodeBody_settled_def Let_def nth_list_update
          split: promise.splits outcome.splits if_splits)
  qed
qed

lemma run_pending:
  "i < length (promises this) \<Longrightarrow> promises (run asArray encodeBody evs this) ! i = Pending encodings \<Longrightarrow>
     i < length (promises (run asArray encodeBody evs this)) \<and> promises this ! i = Pending encodings"
proof (induction evs arbitrary: this)
  case Nil
  then show ?case by simp
next
  case (Cons e es)
  from Cons.prems(1) have l: "i < length (promises (step asArray encodeBody e this))"
    using step_pending by blast
  from Cons.IH [OF l] Cons.prems(2) have
    "i < length (promises (run asArray encodeBody es (step asArray encodeBody e this)))"
    "promises (step asArray encodeBody e this) ! i = Pending encodings" by simp_all
  then show ?case using step_pending [OF Cons.prems(1), where e = e and encodings = encodings] by simp
qed

text \<open>Only \<^verbatim>\<open>updateDecodedBody\<close> changes the decoded body.\<close>

lemma step_decodedBody: "\<not> edit e \<Longrightarrow> decodedBody (step asArray encodeBody e this) = decodedBody this"
proof (cases e)
  case (Pair time ev)
  assume "\<not> edit e"
  then show ?thesis
    by (cases ev)
      (simp_all add: Pair setContentEncodingHeader_def encodeBody_settled_def Let_def
        split: promise.splits outcome.splits)
qed

lemma run_decodedBody:
  "list_all (\<lambda>e. \<not> edit e) evs \<Longrightarrow> decodedBody (run asArray encodeBody evs this) = decodedBody this"
  by (induction evs arbitrary: this) (simp_all add: step_decodedBody)

subsection \<open>The throttle window\<close>



lemma updateDecodedBody_coalesced:
  assumes "timerId this = Some due" and "\<not> shouldInvoke t this" and "b \<noteq> decodedBody this"
  shows "timerId (updateDecodedBody asArray encodeBody t b this) = Some due"
    and "lastArgs (updateDecodedBody asArray encodeBody t b this)"
    and "lastCallTime (updateDecodedBody asArray encodeBody t b this) = Some t"
    and "lastInvokeTime (updateDecodedBody asArray encodeBody t b this) = lastInvokeTime this"
    and "decodedBody (updateDecodedBody asArray encodeBody t b this) = b"
    and "contentEncodingHeader (updateDecodedBody asArray encodeBody t b this) = contentEncodingHeader this"
    and "promises (updateDecodedBody asArray encodeBody t b this) = promises this"
    and "encodeCalls (updateDecodedBody asArray encodeBody t b this) = encodeCalls this"
  using assms by (simp_all add: updateDecodedBody_def throttle_defs Let_def)

lemma setContentEncodingHeader_coalesced:
  assumes "timerId this = Some due" and "\<not> shouldInvoke t this" and "lastArgs this"
  shows "timerId (setContentEncodingHeader asArray encodeBody t h this) = Some due"
    and "lastArgs (setContentEncodingHeader asArray encodeBody t h this)"
    and "lastInvokeTime (setContentEncodingHeader asArray encodeBody t h this) = lastInvokeTime this"
    and "decodedBody (setContentEncodingHeader asArray encodeBody t h this) = decodedBody this"
    and "contentEncodingHeader (setContentEncodingHeader asArray encodeBody t h this) = h"
    and "promises (setContentEncodingHeader asArray encodeBody t h this) = promises this"
    and "encodeCalls (setContentEncodingHeader asArray encodeBody t h this) = encodeCalls this"
  using assms by (simp_all add: setContentEncodingHeader_def throttle_defs Let_def)

lemma timerFired_trailing:
  assumes "timerId this = Some due" and "due \<le> T" and "wait \<le> T - lastInvokeTime this" and "lastArgs this"
  shows "encodeCalls (timerFired asArray encodeBody T this)
           = encodeCalls this @ [(length (promises this), decodedBody this, contentEncodings asArray this)]"
    and "timerId (timerFired asArray encodeBody T this) = None"
  using assms
  by (simp_all add: timerFired_def throttle_defs shouldInvoke_def wait_def maxWait_def Let_def
      contentEncodings_def split: option.splits)







lemma updateDecodedBody_fields [simp]:
  "decodedBody (updateDecodedBody asArray encodeBody t b this) = b"
  "contentEncodingHeader (updateDecodedBody asArray encodeBody t b this) = contentEncodingHeader this"
  by (simp_all add: updateDecodedBody_def Let_def)

lemma setContentEncodingHeader_fields [simp]:
  "decodedBody (setContentEncodingHeader asArray encodeBody t h this) = decodedBody this"
  "contentEncodingHeader (setContentEncodingHeader asArray encodeBody t h this) = h"
  by (simp_all add: setContentEncodingHeader_def Let_def)

subsection \<open>Events that are no trigger\<close>

lemma untriggered_step:
  "encodeCalls this = [] \<Longrightarrow> timerId this = None \<Longrightarrow> \<not> trigger asArray this ev \<Longrightarrow>
   encodeCalls (step asArray encodeBody (t, ev) this) = [] \<and> timerId (step asArray encodeBody (t, ev) this) = None"
  by (cases ev)
    (simp_all add: updateDecodedBody_def setContentEncodingHeader_def timerFired_def
      encodeBody_settled_def Let_def split: promise.splits outcome.splits)

lemma untriggered_run:
  "encodeCalls this = [] \<Longrightarrow> timerId this = None \<Longrightarrow> untriggered asArray encodeBody evs this \<Longrightarrow>
   encodeCalls (run asArray encodeBody evs this) = []"
proof (induction evs arbitrary: this)
  case Nil
  then show ?case by simp
next
  case (Cons e es)
  obtain t ev where e: "e = (t, ev)" by (cases e)
  from Cons.prems have "\<not> trigger asArray this ev" "untriggered asArray encodeBody es (step asArray encodeBody (t, ev) this)"
    by (simp_all add: e)
  with Cons.prems(1,2) Cons.IH [of "step asArray encodeBody (t, ev) this"] untriggered_step [of this asArray ev encodeBody t]
  show ?case by (simp add: e)
qed

lemma encodeBody_settled_encodedBody:
  "encodedBody (encodeBody_settled p out this) \<noteq> encodedBody this \<Longrightarrow>
     p = encodingPromise this \<and> p < length (promises this) \<and> (\<exists>encodings. promises this ! p = Pending encodings)"
  by (auto simp add: encodeBody_settled_def Let_def split: if_splits promise.splits outcome.splits)

section \<open>The claims\<close>

text \<open>
  Claim C1 (last scheduled wins). Let a request A be in flight: its promise \<open>a\<close> is in
  the store and pending. When a request B is scheduled after it, \<^verbatim>\<open>_encodingPromise\<close>
  is B's new promise as soon as the scheduling returns, and is not \<open>a\<close>; when A ends
  first, \<^verbatim>\<open>_encodedBody\<close> stays what it was. When B's call of \<^verbatim>\<open>encodeBody\<close> handed
  back its promise, then whatever the two calls end with, and in whichever order they
  end, the committed \<^verbatim>\<open>_encodedBody\<close> and \<^verbatim>\<open>contentLength\<close> are B's result. When B's
  call threw, there is no result of B, and A's result is not committed either.
\<close>

theorem last_scheduled_wins:
  assumes "a < length (promises this)" and "promises this ! a = Pending encodingsA"
  shows "encoded (updateEncodedBody_func asArray encodeBody this) = length (promises this) \<and>
    encoded (updateEncodedBody_func asArray encodeBody this) \<noteq> a \<and>
    promises (updateEncodedBody_func asArray encodeBody this) ! a = Pending encodingsA \<and>
    encodedBody (encodeBody_settled a outA (updateEncodedBody_func asArray encodeBody this)) = encodedBody this \<and>
    (encodeBody (decodedBody this) (contentEncodings asArray this) = Returned \<longrightarrow>
      encodedBody (encodeBody_settled a outA
          (encodeBody_settled (length (promises this)) outB (updateEncodedBody_func asArray encodeBody this)))
        = Some (case outB of Resolves r \<Rightarrow> r | Rejects e \<Rightarrow> decodedBody this) \<and>
      contentLength (encodeBody_settled a outA
          (encodeBody_settled (length (promises this)) outB (updateEncodedBody_func asArray encodeBody this)))
        = byteLength (case outB of Resolves r \<Rightarrow> r | Rejects e \<Rightarrow> decodedBody this) \<and>
      encodedBody (encodeBody_settled (length (promises this)) outB
          (encodeBody_settled a outA (updateEncodedBody_func asArray encodeBody this)))
        = Some (case outB of Resolves r \<Rightarrow> r | Rejects e \<Rightarrow> decodedBody this)) \<and>
    (encodeBody (decodedBody this) (contentEncodings asArray this) = Threw err \<longrightarrow>
      encodedBody (encodeBody_settled a outA
          (encodeBody_settled (length (promises this)) outB (updateEncodedBody_func asArray encodeBody this)))
        = encodedBody this)"
  using assms
  by (simp add: updateEncodedBody_func_def encodeBody_settled_def Let_def encoded_def
      contentLength_def nth_append split: outcome.splits)

text \<open>
  The request of the constructor is in flight when a second one is scheduled; the
  second ends first. Also the same through the methods: the body is edited at 600,
  after the throttle's timer, and the first request ends last. With the encoder that
  throws, the second request has no result and the first one's is not committed.
\<close>

theorem last_scheduled_wins_witness:
  "0 < length (promises (EditableBody asHeaderArray asyncEncodeBody 0 plainBody None (Str ''gzip''))) \<and>
   promises (EditableBody asHeaderArray asyncEncodeBody 0 plainBody None (Str ''gzip'')) ! 0 = Pending [''gzip''] \<and>
   asyncEncodeBody (decodedBody (EditableBody asHeaderArray asyncEncodeBody 0 plainBody None (Str ''gzip'')))
     (contentEncodings asHeaderArray (EditableBody asHeaderArray asyncEncodeBody 0 plainBody None (Str ''gzip'')))
     = Returned \<and>
   encodedBody (encodeBody_settled 0 (Resolves gzippedBody) (encodeBody_settled 1 (Resolves gzippedEdit)
      (updateEncodedBody_func asHeaderArray asyncEncodeBody
        (EditableBody asHeaderArray asyncEncodeBody 0 plainBody None (Str ''gzip'')))))
     = Some gzippedEdit \<and>
   contentLength (run asHeaderArray asyncEncodeBody
      [(500, TimerFired), (600, UpdateDecodedBody editedBody),
       (700, EncodeBodySettled 1 (Resolves gzippedEdit)),
       (900, EncodeBodySettled 0 (Resolves gzippedBody))]
      (EditableBody asHeaderArray asyncEncodeBody 0 plainBody None (Str ''gzip''))) = 5 \<and>
   throwingEncodeBody (decodedBody (EditableBody asHeaderArray asyncEncodeBody 0 plainBody None (Str ''gzip'')))
     (contentEncodings asHeaderArray (EditableBody asHeaderArray asyncEncodeBody 0 plainBody None (Str ''gzip'')))
     = Threw (Error ''no worker'') \<and>
   encodedBody (encodeBody_settled 0 (Resolves gzippedBody) (encodeBody_settled 1 (Resolves gzippedEdit)
      (updateEncodedBody_func asHeaderArray throwingEncodeBody
        (EditableBody asHeaderArray asyncEncodeBody 0 plainBody None (Str ''gzip'')))))
     = None"
  using last_scheduled_wins [where a = 0
      and this = "EditableBody asHeaderArray asyncEncodeBody 0 plainBody None (Str ''gzip'')"
      and encodingsA = "[''gzip'']" and asArray = asHeaderArray and encodeBody = asyncEncodeBody
      and outA = "Resolves gzippedBody" and outB = "Resolves gzippedEdit"]
    last_scheduled_wins [where a = 0
      and this = "EditableBody asHeaderArray asyncEncodeBody 0 plainBody None (Str ''gzip'')"
      and encodingsA = "[''gzip'']" and asArray = asHeaderArray and encodeBody = throwingEncodeBody
      and outA = "Resolves gzippedBody" and outB = "Resolves gzippedEdit" and err = "Error ''no worker''"]
  by (simp add: eval_defs)

text \<open>
  Claim C2 (fail open), as the code has it. A request is scheduled with the decoded
  body and the encodings of that moment, and is still pending after a history \<open>evs\<close>.
  When its \<^verbatim>\<open>encodeBody\<close> rejects, \<^verbatim>\<open>logError\<close> is called once, with the encodings the
  request was scheduled with, and not again for that request; the request's promise is
  fulfilled with the decoded body of the moment of the rejection; \<^verbatim>\<open>_encodedBody\<close>
  becomes that decoded body if the request is still the latest, and stays as it is
  otherwise. When no \<^verbatim>\<open>updateDecodedBody\<close> came in between, the decoded body of the
  moment of the rejection is the one the request was scheduled with.
\<close>

theorem fail_open_on_rejection:
  assumes "promises (run asArray encodeBody evs (updateEncodedBody_func asArray encodeBody this0))
      ! length (promises this0) = Pending encodings"
  shows "encodings = contentEncodings asArray this0 \<and>
    (length (promises this0), decodedBody this0, encodings)
      \<in> set (encodeCalls (updateEncodedBody_func asArray encodeBody this0)) \<and>
    errorLog (encodeBody_settled (length (promises this0)) (Rejects err)
        (run asArray encodeBody evs (updateEncodedBody_func asArray encodeBody this0)))
      = errorLog (run asArray encodeBody evs (updateEncodedBody_func asArray encodeBody this0)) @ [(err, encodings)] \<and>
    promises (encodeBody_settled (length (promises this0)) (Rejects err)
        (run asArray encodeBody evs (updateEncodedBody_func asArray encodeBody this0)))
        ! length (promises this0)
      = Fulfilled (decodedBody (run asArray encodeBody evs (updateEncodedBody_func asArray encodeBody this0))) \<and>
    encodedBody (encodeBody_settled (length (promises this0)) (Rejects err)
        (run asArray encodeBody evs (updateEncodedBody_func asArray encodeBody this0)))
      = (if encodingPromise (run asArray encodeBody evs (updateEncodedBody_func asArray encodeBody this0))
            = length (promises this0)
         then Some (decodedBody (run asArray encodeBody evs (updateEncodedBody_func asArray encodeBody this0)))
         else encodedBody (run asArray encodeBody evs (updateEncodedBody_func asArray encodeBody this0))) \<and>
    errorLog (encodeBody_settled (length (promises this0)) out
        (encodeBody_settled (length (promises this0)) (Rejects err)
          (run asArray encodeBody evs (updateEncodedBody_func asArray encodeBody this0))))
      = errorLog (run asArray encodeBody evs (updateEncodedBody_func asArray encodeBody this0)) @ [(err, encodings)] \<and>
    (list_all (\<lambda>e. \<not> edit e) evs \<longrightarrow>
       decodedBody (run asArray encodeBody evs (updateEncodedBody_func asArray encodeBody this0)) = decodedBody this0)"
proof -
  let ?S1 = "updateEncodedBody_func asArray encodeBody this0"
  let ?S = "run asArray encodeBody evs ?S1"
  let ?p = "length (promises this0)"
  have l1: "?p < length (promises ?S1)"
    by (simp add: updateEncodedBody_func_def Let_def)
  from run_pending [OF l1 assms] have l: "?p < length (promises ?S)"
    and p1: "promises ?S1 ! ?p = Pending encodings" by simp_all
  from p1 have e: "encodings = contentEncodings asArray this0"
    by (simp add: updateEncodedBody_func_def Let_def split: called.splits)
  have c: "(?p, decodedBody this0, encodings) \<in> set (encodeCalls ?S1)"
    by (simp add: e updateEncodedBody_func_def Let_def)
  have s: "promises (encodeBody_settled ?p (Rejects err) ?S) ! ?p = Fulfilled (decodedBody ?S)"
    using l assms by (simp add: encodeBody_settled_def Let_def)
  have sl: "?p < length (promises (encodeBody_settled ?p (Rejects err) ?S))"
    using l assms by (simp add: encodeBody_settled_def Let_def)
  have g: "errorLog (encodeBody_settled ?p (Rejects err) ?S) = errorLog ?S @ [(err, encodings)]"
    using l assms by (simp add: encodeBody_settled_def Let_def)
  have b: "encodedBody (encodeBody_settled ?p (Rejects err) ?S)
      = (if encodingPromise ?S = ?p then Some (decodedBody ?S) else encodedBody ?S)"
    using l assms by (simp add: encodeBody_settled_def Let_def)
  have o: "encodeBody_settled ?p out (encodeBody_settled ?p (Rejects err) ?S)
      = encodeBody_settled ?p (Rejects err) ?S"
    using s sl by (simp add: encodeBody_settled_def [of ?p out])
  have d: "list_all (\<lambda>e. \<not> edit e) evs \<longrightarrow> decodedBody ?S = decodedBody this0"
    by (simp add: run_decodedBody updateEncodedBody_func_def Let_def)
  show ?thesis using e c s g b d by (simp only: o)
qed

theorem fail_open_on_rejection_witness:
  "promises (run asHeaderArray asyncEncodeBody [(100, SetContentEncodingHeader (Arr [''gzip'']))]
       (updateEncodedBody_func asHeaderArray asyncEncodeBody (blank plainBody (Str ''gzip''))))
      ! length (promises (blank plainBody (Str ''gzip''))) = Pending [''gzip''] \<and>
   list_all (\<lambda>e. \<not> edit e) [(100, SetContentEncodingHeader (Arr [''gzip'']))] \<and>
   errorLog (encodeBody_settled 0 (Rejects (Error ''unsupported''))
      (run asHeaderArray asyncEncodeBody [(100, SetContentEncodingHeader (Arr [''gzip'']))]
        (updateEncodedBody_func asHeaderArray asyncEncodeBody (blank plainBody (Str ''gzip'')))))
     = [(Error ''unsupported'', [''gzip''])] \<and>
   encodedBody (encodeBody_settled 0 (Rejects (Error ''unsupported''))
      (run asHeaderArray asyncEncodeBody [(100, SetContentEncodingHeader (Arr [''gzip'']))]
        (updateEncodedBody_func asHeaderArray asyncEncodeBody (blank plainBody (Str ''gzip''))))) = Some plainBody"
  using fail_open_on_rejection [where asArray = asHeaderArray and encodeBody = asyncEncodeBody
      and evs = "[(100, SetContentEncodingHeader (Arr [''gzip'']))]"
      and ?this0.0 = "blank plainBody (Str ''gzip'')" and encodings = "[''gzip'']"
      and err = "Error ''unsupported''" and out = "Rejects (Error ''unsupported'')"]
  by (simp add: eval_defs)

text \<open>
  Claim C2 as stated fails: the object is built with \<open>plainBody\<close> under gzip, so the
  request is scheduled with \<open>plainBody\<close>; the body is edited at 100, inside the throttle
  window, so no new request starts; the request's \<^verbatim>\<open>encodeBody\<close> rejects at 200. The
  committed body is the edited one, not the one the request was scheduled with.
\<close>

theorem fail_open_counterexample:
  "encodeCalls (run asHeaderArray asyncEncodeBody
      [(100, UpdateDecodedBody editedBody), (200, EncodeBodySettled 0 (Rejects (Error ''unsupported'')))]
      (EditableBody asHeaderArray asyncEncodeBody 0 plainBody None (Str ''gzip''))) = [(0, plainBody, [''gzip''])] \<and>
   encodedBody (run asHeaderArray asyncEncodeBody
      [(100, UpdateDecodedBody editedBody), (200, EncodeBodySettled 0 (Rejects (Error ''unsupported'')))]
      (EditableBody asHeaderArray asyncEncodeBody 0 plainBody None (Str ''gzip''))) = Some editedBody \<and>
   editedBody \<noteq> plainBody \<and>
   contentLength (run asHeaderArray asyncEncodeBody
      [(100, UpdateDecodedBody editedBody), (200, EncodeBodySettled 0 (Rejects (Error ''unsupported'')))]
      (EditableBody asHeaderArray asyncEncodeBody 0 plainBody None (Str ''gzip''))) \<noteq> byteLength plainBody"
  by (simp add: eval_defs)




text \<open>
  Claim C4 (a stale request is discarded, and still resolves). When \<^verbatim>\<open>encodeBody\<close>
  settles for a pending request that is not the latest one, \<^verbatim>\<open>_encodedBody\<close>,
  \<^verbatim>\<open>contentLength\<close> and \<^verbatim>\<open>encoded\<close> are unchanged, and the request's own promise is
  fulfilled with the bytes it computed.
\<close>

theorem stale_task_discarded:
  assumes "p < length (promises this)" and "promises this ! p = Pending encodings"
    and "encodingPromise this \<noteq> p"
  shows "encodedBody (encodeBody_settled p out this) = encodedBody this \<and>
         contentLength (encodeBody_settled p out this) = contentLength this \<and>
         encoded (encodeBody_settled p out this) = encoded this \<and>
         promises (encodeBody_settled p out this) ! p =
           Fulfilled (case out of Resolves b \<Rightarrow> b | Rejects e \<Rightarrow> decodedBody this)"
  using assms
  by (simp add: encodeBody_settled_def Let_def contentLength_def encoded_def split: outcome.splits)

theorem stale_task_discarded_witness:
  "0 < length (promises (run asHeaderArray asyncEncodeBody [(500, TimerFired), (600, UpdateDecodedBody editedBody)]
      (EditableBody asHeaderArray asyncEncodeBody 0 plainBody None (Str ''gzip'')))) \<and>
   promises (run asHeaderArray asyncEncodeBody [(500, TimerFired), (600, UpdateDecodedBody editedBody)]
      (EditableBody asHeaderArray asyncEncodeBody 0 plainBody None (Str ''gzip''))) ! 0 = Pending [''gzip''] \<and>
   encodingPromise (run asHeaderArray asyncEncodeBody [(500, TimerFired), (600, UpdateDecodedBody editedBody)]
      (EditableBody asHeaderArray asyncEncodeBody 0 plainBody None (Str ''gzip''))) = 1 \<and>
   encodedBody (encodeBody_settled 0 (Resolves gzippedBody)
      (run asHeaderArray asyncEncodeBody [(500, TimerFired), (600, UpdateDecodedBody editedBody)]
        (EditableBody asHeaderArray asyncEncodeBody 0 plainBody None (Str ''gzip'')))) = None \<and>
   promises (encodeBody_settled 0 (Resolves gzippedBody)
      (run asHeaderArray asyncEncodeBody [(500, TimerFired), (600, UpdateDecodedBody editedBody)]
        (EditableBody asHeaderArray asyncEncodeBody 0 plainBody None (Str ''gzip'')))) ! 0 = Fulfilled gzippedBody"
  using stale_task_discarded [where p = 0
      and this = "run asHeaderArray asyncEncodeBody [(500, TimerFired), (600, UpdateDecodedBody editedBody)]
        (EditableBody asHeaderArray asyncEncodeBody 0 plainBody None (Str ''gzip''))"
      and encodings = "[''gzip'']" and out = "Resolves gzippedBody"]
  by (simp add: eval_defs)




text \<open>
  Claim C6 (seeded construction skips the recomputation). Built with an encoded body,
  the object has called \<^verbatim>\<open>encodeBody\<close> zero times; the given bytes are \<^verbatim>\<open>_encodedBody\<close>,
  give \<^verbatim>\<open>contentLength\<close>, and are the value of the promise \<^verbatim>\<open>encoded\<close>. The count stays
  zero along every history without a trigger, and the first edit makes the first call.
  Built without an encoded body, the object has called \<^verbatim>\<open>encodeBody\<close> once, with the
  decoded body and the encodings of the header, and has no encoded body yet.
\<close>

theorem seeded_construction_skips_recompute:
  "encodeCalls (EditableBody asArray encodeBody time d (Some e) h) = [] \<and>
   encodedBody (EditableBody asArray encodeBody time d (Some e) h) = Some e \<and>
   contentLength (EditableBody asArray encodeBody time d (Some e) h) = byteLength e \<and>
   promises (EditableBody asArray encodeBody time d (Some e) h) ! encoded (EditableBody asArray encodeBody time d (Some e) h)
     = Fulfilled e \<and>
   (untriggered asArray encodeBody evs (EditableBody asArray encodeBody time d (Some e) h) \<longrightarrow>
      encodeCalls (run asArray encodeBody evs (EditableBody asArray encodeBody time d (Some e) h)) = []) \<and>
   (newBody \<noteq> d \<longrightarrow>
      encodeCalls (updateDecodedBody asArray encodeBody t newBody (EditableBody asArray encodeBody time d (Some e) h))
        = [(1, newBody, asArray h)]) \<and>
   encodeCalls (EditableBody asArray encodeBody time d None h) = [(0, d, asArray h)] \<and>
   encodedBody (EditableBody asArray encodeBody time d None h) = None"
proof -
  let ?S = "EditableBody asArray encodeBody time d (Some e) h"
  have a: "encodeCalls ?S = []" "timerId ?S = None"
    by (simp_all add: EditableBody_def blank_def)
  have b: "untriggered asArray encodeBody evs ?S \<longrightarrow> encodeCalls (run asArray encodeBody evs ?S) = []"
    using untriggered_run [OF a] by blast
  have c: "encodedBody ?S = Some e" "contentLength ?S = byteLength e" "promises ?S ! encoded ?S = Fulfilled e"
    by (simp_all add: EditableBody_def blank_def contentLength_def encoded_def)
  have d: "newBody \<noteq> d \<longrightarrow> encodeCalls (updateDecodedBody asArray encodeBody t newBody ?S) = [(1, newBody, asArray h)]"
    by (simp add: EditableBody_def blank_def updateDecodedBody_def throttle_defs shouldInvoke_def
        contentEncodings_def Let_def)
  have n: "encodeCalls (EditableBody asArray encodeBody time d None h) = [(0, d, asArray h)]"
    "encodedBody (EditableBody asArray encodeBody time d None h) = None"
    by (simp_all add: EditableBody_def blank_def throttle_defs shouldInvoke_def contentEncodings_def Let_def)
  show ?thesis using a(1) b c d n by simp
qed

theorem seeded_construction_skips_recompute_witness:
  "untriggered asHeaderArray asyncEncodeBody
      [(5, EncodeBodySettled 0 (Resolves gzippedEdit)), (10, UpdateDecodedBody plainBody),
       (20, SetContentEncodingHeader (Arr [''gzip''])), (600, TimerFired)]
      (EditableBody asHeaderArray asyncEncodeBody 0 plainBody (Some gzippedBody) (Str ''gzip'')) \<and>
   encodeCalls (run asHeaderArray asyncEncodeBody
      [(5, EncodeBodySettled 0 (Resolves gzippedEdit)), (10, UpdateDecodedBody plainBody),
       (20, SetContentEncodingHeader (Arr [''gzip''])), (600, TimerFired)]
      (EditableBody asHeaderArray asyncEncodeBody 0 plainBody (Some gzippedBody) (Str ''gzip''))) = [] \<and>
   editedBody \<noteq> plainBody \<and>
   encodeCalls (updateDecodedBody asHeaderArray asyncEncodeBody 10 editedBody
      (EditableBody asHeaderArray asyncEncodeBody 0 plainBody (Some gzippedBody) (Str ''gzip''))) = [(1, editedBody, [''gzip''])]"
  using seeded_construction_skips_recompute [where asArray = asHeaderArray and encodeBody = asyncEncodeBody
      and time = 0 and d = plainBody and e = gzippedBody and h = "Str ''gzip''"
      and evs = "[(5, EncodeBodySettled 0 (Resolves gzippedEdit)), (10, UpdateDecodedBody plainBody),
       (20, SetContentEncodingHeader (Arr [''gzip''])), (600, TimerFired)]"
      and newBody = editedBody and t = 10]
  by (simp add: eval_defs)

text \<open>
  Claim C7 (header equality). When the header accessor's value changes to one with the
  same array of encodings, the object changes in nothing but that value: no call of the
  throttled function, no request, no call of \<^verbatim>\<open>encodeBody\<close>. So a header change that
  leads to a call of \<^verbatim>\<open>encodeBody\<close> has another array, compared as a value. And when the
  array is another one and the throttle is quiet, a request is scheduled at once, with
  the new encodings. The example has the string \<^verbatim>\<open>gzip\<close> against the one-element
  sequence of it.
\<close>

theorem header_equality_idempotent:
  "(asArray header = contentEncodings asArray this \<longrightarrow>
      setContentEncodingHeader asArray encodeBody time header this = this\<lparr>contentEncodingHeader := header\<rparr>) \<and>
   (encodeCalls (setContentEncodingHeader asArray encodeBody time header this) \<noteq> encodeCalls this \<longrightarrow>
      asArray header \<noteq> contentEncodings asArray this) \<and>
   (asArray header \<noteq> contentEncodings asArray this \<and> timerId this = None \<and> shouldInvoke time this \<longrightarrow>
      encodeCalls (setContentEncodingHeader asArray encodeBody time header this)
        = encodeCalls this @ [(length (promises this), decodedBody this, asArray header)] \<and>
      encoded (setContentEncodingHeader asArray encodeBody time header this) = length (promises this))"
proof -
  have a: "asArray header = contentEncodings asArray this \<longrightarrow>
      setContentEncodingHeader asArray encodeBody time header this = this\<lparr>contentEncodingHeader := header\<rparr>"
    by (simp add: setContentEncodingHeader_def Let_def)
  then have b: "encodeCalls (setContentEncodingHeader asArray encodeBody time header this) \<noteq> encodeCalls this \<longrightarrow>
      asArray header \<noteq> contentEncodings asArray this"
    by auto
  have c: "asArray header \<noteq> contentEncodings asArray this \<and> timerId this = None \<and> shouldInvoke time this \<longrightarrow>
      encodeCalls (setContentEncodingHeader asArray encodeBody time header this)
        = encodeCalls this @ [(length (promises this), decodedBody this, asArray header)] \<and>
      encoded (setContentEncodingHeader asArray encodeBody time header this) = length (promises this)"
    by (simp add: setContentEncodingHeader_def throttle_defs contentEncodings_def encoded_def Let_def)
  from a b c show ?thesis by blast
qed

theorem header_equality_idempotent_witness:
  "asHeaderArray (Arr [''gzip''])
     = contentEncodings asHeaderArray (EditableBody asHeaderArray asyncEncodeBody 0 plainBody (Some gzippedBody) (Str ''gzip'')) \<and>
   encodeCalls (setContentEncodingHeader asHeaderArray asyncEncodeBody 10 (Arr [''gzip''])
      (EditableBody asHeaderArray asyncEncodeBody 0 plainBody (Some gzippedBody) (Str ''gzip''))) = [] \<and>
   asHeaderArray (Str ''br'')
     \<noteq> contentEncodings asHeaderArray (EditableBody asHeaderArray asyncEncodeBody 0 plainBody (Some gzippedBody) (Str ''gzip'')) \<and>
   timerId (EditableBody asHeaderArray asyncEncodeBody 0 plainBody (Some gzippedBody) (Str ''gzip'')) = None \<and>
   shouldInvoke 10 (EditableBody asHeaderArray asyncEncodeBody 0 plainBody (Some gzippedBody) (Str ''gzip'')) \<and>
   encodeCalls (setContentEncodingHeader asHeaderArray asyncEncodeBody 10 (Str ''br'')
      (EditableBody asHeaderArray asyncEncodeBody 0 plainBody (Some gzippedBody) (Str ''gzip''))) = [(1, plainBody, [''br''])]"
  using header_equality_idempotent [where asArray = asHeaderArray and encodeBody = asyncEncodeBody
      and header = "Arr [''gzip'']" and time = 10
      and this = "EditableBody asHeaderArray asyncEncodeBody 0 plainBody (Some gzippedBody) (Str ''gzip'')"]
    header_equality_idempotent [where asArray = asHeaderArray and encodeBody = asyncEncodeBody
      and header = "Str ''br''" and time = 10
      and this = "EditableBody asHeaderArray asyncEncodeBody 0 plainBody (Some gzippedBody) (Str ''gzip'')"]
  by (simp add: eval_defs)

text \<open>
  Claim C8 (no encoding). When the header gives the empty array of encodings, the
  constructor without an encoded body still calls \<^verbatim>\<open>encodeBody\<close>, with the decoded body
  and the empty array; if that call hands back a promise that gives the input back,
  \<^verbatim>\<open>_encodedBody\<close> is the decoded body and \<^verbatim>\<open>contentLength\<close> its length. The same
  holds for every later request under such a header: the function has no case for the
  empty array.
\<close>

theorem no_encoding_passthrough:
  assumes "asArray h = []"
  shows "encodeCalls (EditableBody asArray encodeBody time d None h) = [(0, d, [])] \<and>
    encoded (EditableBody asArray encodeBody time d None h) = 0 \<and>
    (encodeBody d [] = Returned \<longrightarrow>
       encodedBody (encodeBody_settled 0 (Resolves d) (EditableBody asArray encodeBody time d None h)) = Some d \<and>
       contentLength (encodeBody_settled 0 (Resolves d) (EditableBody asArray encodeBody time d None h))
         = byteLength d) \<and>
    (contentEncodingHeader this = h \<longrightarrow>
       encodeCalls (updateEncodedBody_func asArray encodeBody this)
         = encodeCalls this @ [(length (promises this), decodedBody this, [])] \<and>
       (encodeBody (decodedBody this) [] = Returned \<longrightarrow>
          contentLength (encodeBody_settled (length (promises this)) (Resolves (decodedBody this))
              (updateEncodedBody_func asArray encodeBody this)) = byteLength (decodedBody this)))"
  using assms
  by (simp add: EditableBody_def blank_def throttle_defs shouldInvoke_def contentEncodings_def
      encodeBody_settled_def contentLength_def encoded_def Let_def)

theorem no_encoding_passthrough_witness:
  "asHeaderArray Undefined = [] \<and>
   encodeCalls (EditableBody asHeaderArray asyncEncodeBody 0 plainBody None Undefined) = [(0, plainBody, [])] \<and>
   asyncEncodeBody plainBody [] = Returned \<and>
   contentLength (encodeBody_settled 0 (Resolves plainBody)
      (EditableBody asHeaderArray asyncEncodeBody 0 plainBody None Undefined)) = 2 \<and>
   contentEncodingHeader (blank plainBody Undefined) = Undefined \<and>
   asyncEncodeBody (decodedBody (blank plainBody Undefined)) [] = Returned \<and>
   encodeCalls (updateEncodedBody_func asHeaderArray asyncEncodeBody (blank plainBody Undefined))
     = [(0, plainBody, [])]"
  using no_encoding_passthrough [where asArray = asHeaderArray and encodeBody = asyncEncodeBody
      and h = Undefined and time = 0 and d = plainBody and this = "blank plainBody Undefined"]
  by (simp add: eval_defs)

text \<open>
  Claim C9 (the decoded body). \<^verbatim>\<open>updateDecodedBody\<close> is a total function from the object
  to the object: it has no result and no error. Right after it \<^verbatim>\<open>decoded\<close> is the buffer
  it was given, in every state, so after every history of the object.
\<close>

theorem updateDecodedBody_decoded:
  "decoded (updateDecodedBody asArray encodeBody time newBody this) = newBody \<and>
   decoded (updateDecodedBody asArray encodeBody time newBody (run asArray encodeBody evs (EditableBody asArray encodeBody t0 d e h))) = newBody"
  by (simp add: decoded_def updateDecodedBody_def Let_def)

theorem updateDecodedBody_decoded_witness:
  "decoded (updateDecodedBody asHeaderArray asyncEncodeBody 10 editedBody
      (run asHeaderArray asyncEncodeBody [(5, EncodeBodySettled 0 (Rejects (Error ''unsupported'')))]
        (EditableBody asHeaderArray asyncEncodeBody 0 plainBody None (Str ''gzip'')))) = editedBody"
  using updateDecodedBody_decoded [where asArray = asHeaderArray and encodeBody = asyncEncodeBody
      and time = 10 and newBody = editedBody
      and this = "EditableBody asHeaderArray asyncEncodeBody 0 plainBody None (Str ''gzip'')"
      and evs = "[(5, EncodeBodySettled 0 (Rejects (Error ''unsupported'')))]"
      and ?t0.0 = 0 and d = plainBody and e = None and h = "Str ''gzip''"]
  by (simp add: eval_defs)

text \<open>
  Claim C10 (frame of the edit). \<^verbatim>\<open>updateDecodedBody\<close> leaves \<^verbatim>\<open>_encodedBody\<close> and
  \<^verbatim>\<open>contentLength\<close> as they were, whether or not it starts a request. An event that
  changes \<^verbatim>\<open>_encodedBody\<close> is the settlement of \<^verbatim>\<open>encodeBody\<close> for the request that is
  the latest one and still pending.
\<close>

theorem updateDecodedBody_leaves_encodedBody:
  "encodedBody (updateDecodedBody asArray encodeBody time newBody this) = encodedBody this \<and>
   contentLength (updateDecodedBody asArray encodeBody time newBody this) = contentLength this \<and>
   (encodedBody (step asArray encodeBody (time, ev) this) \<noteq> encodedBody this \<longrightarrow>
      (\<exists>out encodings. ev = EncodeBodySettled (encodingPromise this) out \<and>
         encodingPromise this < length (promises this) \<and>
         promises this ! encodingPromise this = Pending encodings))"
proof -
  have a: "encodedBody (updateDecodedBody asArray encodeBody time b this) = encodedBody this" for b
    by (simp add: updateDecodedBody_def Let_def)
  have b: "encodedBody (setContentEncodingHeader asArray encodeBody time h this) = encodedBody this" for h
    by (simp add: setContentEncodingHeader_def Let_def)
  have c: "encodedBody (step asArray encodeBody (time, ev) this) \<noteq> encodedBody this \<longrightarrow>
      (\<exists>out encodings. ev = EncodeBodySettled (encodingPromise this) out \<and>
         encodingPromise this < length (promises this) \<and>
         promises this ! encodingPromise this = Pending encodings)"
  proof (cases ev)
    case (EncodeBodySettled p out)
    then show ?thesis using encodeBody_settled_encodedBody [of p out this] by auto
  qed (simp_all add: a b)
  from a c show ?thesis by (simp add: contentLength_def)
qed

theorem updateDecodedBody_leaves_encodedBody_witness:
  "contentLength (updateDecodedBody asHeaderArray asyncEncodeBody 10 editedBody
      (EditableBody asHeaderArray asyncEncodeBody 0 plainBody (Some gzippedBody) (Str ''gzip''))) = 4 \<and>
   encodedBody (step asHeaderArray asyncEncodeBody (10, EncodeBodySettled 0 (Resolves gzippedBody))
      (EditableBody asHeaderArray asyncEncodeBody 0 plainBody None (Str ''gzip'')))
     \<noteq> encodedBody (EditableBody asHeaderArray asyncEncodeBody 0 plainBody None (Str ''gzip'')) \<and>
   encodingPromise (EditableBody asHeaderArray asyncEncodeBody 0 plainBody None (Str ''gzip'')) = 0 \<and>
   promises (EditableBody asHeaderArray asyncEncodeBody 0 plainBody None (Str ''gzip'')) ! 0 = Pending [''gzip'']"
  using updateDecodedBody_leaves_encodedBody [where asArray = asHeaderArray and encodeBody = asyncEncodeBody
      and time = 10 and newBody = editedBody
      and this = "EditableBody asHeaderArray asyncEncodeBody 0 plainBody (Some gzippedBody) (Str ''gzip'')"]
    updateDecodedBody_leaves_encodedBody [where asArray = asHeaderArray and encodeBody = asyncEncodeBody
      and time = 10 and newBody = editedBody
      and this = "EditableBody asHeaderArray asyncEncodeBody 0 plainBody None (Str ''gzip'')"
      and ev = "EncodeBodySettled 0 (Resolves gzippedBody)"]
  by (simp add: eval_defs)

end
